theory Spec2Isabelle
  imports Complex_Main
begin

section \<open>The cost and tax engine of \<^verbatim>\<open>main.py\<close>\<close>

text \<open>
  The engine is the pair of functions \<^verbatim>\<open>state_rate\<close> and \<^verbatim>\<open>calculate_report\<close>.
  Python floats are read as exact real numbers: the development is about the
  formulas the code evaluates, not about binary rounding error. Quantities are
  Python integers. A field that may hold \<^verbatim>\<open>None\<close> is an \<open>option\<close>; every key
  that \<^verbatim>\<open>load_project\<close> stores in the dictionaries is present.
\<close>

subsection \<open>Python primitives used by the engine\<close>

datatype error = TypeError | ZeroDivisionError

text \<open>\<^verbatim>\<open>x or d\<close>: the default replaces \<^verbatim>\<open>None\<close> and every falsy value.\<close>

definition or_float :: "real option \<Rightarrow> real \<Rightarrow> real" where
  "or_float x d = (case x of None \<Rightarrow> d | Some v \<Rightarrow> if v = 0 then d else v)"

definition or_int :: "int option \<Rightarrow> int \<Rightarrow> int" where
  "or_int x d = (case x of None \<Rightarrow> d | Some v \<Rightarrow> if v = 0 then d else v)"

definition or_str :: "string option \<Rightarrow> string \<Rightarrow> string" where
  "or_str x d = (case x of None \<Rightarrow> d | Some v \<Rightarrow> if v = [] then d else v)"

text \<open>
  \<^verbatim>\<open>str.upper\<close> on state codes, which are strings of ASCII characters: the
  letters a..z (codes 97..122) move to A..Z, every other character stays.
\<close>

definition upper_char :: "char \<Rightarrow> char" where
  "upper_char c =
     (let n = (of_char c :: nat) in if 97 \<le> n \<and> n \<le> 122 then char_of (n - 32) else c)"

definition upper :: "string \<Rightarrow> string" where
  "upper s = map upper_char s"

text \<open>The builtin \<^verbatim>\<open>sum\<close>: a left fold that starts at 0.\<close>

definition py_sum :: "real list \<Rightarrow> real" where
  "py_sum xs = foldl (+) 0 xs"

text \<open>Float division raises on a zero divisor.\<close>

definition py_div :: "real \<Rightarrow> real \<Rightarrow> error + real" where
  "py_div a b = (if b = 0 then Inl ZeroDivisionError else Inr (a / b))"

text \<open>
  \<^verbatim>\<open>round(x, n)\<close>: the nearest multiple of \<open>10\<^sup>-\<^sup>n\<close>, a tie going to the even
  multiple.
\<close>

definition py_round :: "real \<Rightarrow> nat \<Rightarrow> real" where
  "py_round x n =
     (let y = x * 10 ^ n; f = \<lfloor>y\<rfloor>; d = y - of_int f
      in (if d < 1 / 2 then of_int f
          else if 1 / 2 < d then of_int (f + 1)
          else if even f then of_int f else of_int (f + 1)) / 10 ^ n)"

text \<open>\<^verbatim>\<open>int(x)\<close> on a float truncates towards zero.\<close>

definition py_int :: "real \<Rightarrow> int" where
  "py_int x = (if 0 \<le> x then \<lfloor>x\<rfloor> else \<lceil>x\<rceil>)"

text \<open>Decimal text of an integer, as an f-string prints it.\<close>

fun digits :: "nat \<Rightarrow> string" where
  "digits n =
     (if n < 10 then [char_of (48 + n)] else digits (n div 10) @ [char_of (48 + n mod 10)])"

declare digits.simps [simp del]

definition str_int :: "int \<Rightarrow> string" where
  "str_int i = (if i < 0 then CHR ''-'' # digits (nat (- i)) else digits (nat i))"

subsection \<open>Configuration constants\<close>

definition COMPANY_STATE :: string where
  "COMPANY_STATE = ''MG''"

definition DEFAULT_INTERSTATE_RATE :: real where
  "DEFAULT_INTERSTATE_RATE = 12 / 100"

definition DEFAULT_STATE_RATES :: "(string \<times> real) list" where
  "DEFAULT_STATE_RATES = [(''MG'', 18 / 100), (''SP'', 18 / 100), (''RJ'', 20 / 100)]"

definition DEFAULT_SIMPLES_RATE :: real where
  "DEFAULT_SIMPLES_RATE = 5 / 100"

subsection \<open>Rate resolver\<close>

text \<open>\<^verbatim>\<open>dict.get(key, default)\<close> on a dictionary kept as an association list.\<close>

definition dict_get :: "(string \<times> real) list \<Rightarrow> string \<Rightarrow> real \<Rightarrow> real" where
  "dict_get d k dflt = (case map_of d k of None \<Rightarrow> dflt | Some v \<Rightarrow> v)"

text \<open>
  \<^verbatim>\<open>state_rate(state)\<close>: \<^verbatim>\<open>not state\<close> holds for \<^verbatim>\<open>None\<close> and for the empty
  string.
\<close>

definition state_rate :: "string option \<Rightarrow> real" where
  "state_rate state =
     (case state of
        None \<Rightarrow> 0
      | Some s \<Rightarrow>
          if s = [] then 0
          else dict_get DEFAULT_STATE_RATES (upper s) DEFAULT_INTERSTATE_RATE)"

subsection \<open>Input and output records\<close>

record product =
  pr_id :: "int option"
  pr_description :: "string option"
  pr_purchase_cost :: "real option"
  pr_sale_price :: "real option"
  pr_qty :: "int option"
  pr_purchase_state :: "string option"
  pr_sale_state :: "string option"

record other_cost =
  oc_id :: "int option"
  oc_description :: "string option"
  oc_cost :: "real option"

record project =
  pj_project_number :: "string option"
  pj_client_name :: "string option"
  pj_gross_sale :: "real option"
  pj_purchase_state :: "string option"
  pj_sale_state :: "string option"
  pj_simples_rate :: "real option"
  pj_products :: "product list"
  pj_other_costs :: "other_cost list"

text \<open>
  One entry of \<^verbatim>\<open>product_subtotals\<close>. The keys \<^verbatim>\<open>difal_out\<close> and \<^verbatim>\<open>difal_in\<close>
  are absent (\<open>None\<close>) until the second and the third loop store them.
\<close>

record item =
  it_id :: "int option"
  it_description :: "string option"
  it_qty :: int
  it_purchase_total :: real
  it_sale_total :: real
  it_purchase_state :: string
  it_sale_state :: string
  it_difal_out :: "real option"
  it_difal_in :: "real option"

record assumptions_block =
  as_interstate_rate :: real
  as_state_rates :: "(string \<times> real) list"
  as_note_text :: string

record report =
  rp_project_number :: "string option"
  rp_client_name :: "string option"
  rp_created_at :: string
  rp_company_state :: string
  rp_gross_sale :: real
  rp_simples_rate :: real
  rp_das_total :: real
  rp_products :: "item list"
  rp_total_purchase :: real
  rp_total_difal_in :: real
  rp_total_difal_out :: real
  rp_other_costs :: "other_cost list"
  rp_total_other :: real
  rp_total_cost :: real
  rp_net_value :: real
  rp_net_percent :: real
  rp_min_sale_for_profit :: "(string \<times> real) list"
  rp_assumptions :: assumptions_block

subsection \<open>The three loops of \<^verbatim>\<open>calculate_report\<close>\<close>

text \<open>
  First loop: one subtotal per product, appended in order, with the running
  \<^verbatim>\<open>total_purchase\<close> and \<^verbatim>\<open>total_sale_assigned\<close>.
\<close>

definition subtotal :: "project \<Rightarrow> product \<Rightarrow> item" where
  "subtotal proj p =
     (let qty = or_int (pr_qty p) 1;
          purchase_total = or_float (pr_purchase_cost p) 0 * of_int qty;
          sale_total = or_float (pr_sale_price p) 0 * of_int qty;
          origin = upper (or_str (pr_purchase_state p) (or_str (pj_purchase_state proj) []));
          dest = upper (or_str (pr_sale_state p) (or_str (pj_sale_state proj) []))
      in \<lparr> it_id = pr_id p, it_description = pr_description p, it_qty = qty,
           it_purchase_total = purchase_total, it_sale_total = sale_total,
           it_purchase_state = origin, it_sale_state = dest,
           it_difal_out = None, it_difal_in = None \<rparr>)"

fun subtotals_loop ::
  "project \<Rightarrow> product list \<Rightarrow> item list \<times> real \<times> real \<Rightarrow> item list \<times> real \<times> real" where
  "subtotals_loop proj [] acc = acc"
| "subtotals_loop proj (p # ps) (product_subtotals, total_purchase, total_sale_assigned) =
     (let it = subtotal proj p
      in subtotals_loop proj ps
           (product_subtotals @ [it],
            total_purchase + it_purchase_total it,
            total_sale_assigned + it_sale_total it))"

text \<open>Second loop: \<^verbatim>\<open>difal_out\<close> is stored in each item and added to the total.\<close>

definition item_difal_out :: "item \<Rightarrow> real" where
  "item_difal_out it =
     (let dst = it_sale_state it;
          sale_value = (if 0 < it_sale_total it then it_sale_total it else it_purchase_total it)
      in if dst \<noteq> [] \<and> dst \<noteq> COMPANY_STATE
         then max 0 (state_rate (Some dst) - DEFAULT_INTERSTATE_RATE) * sale_value
         else 0)"

fun difal_out_loop :: "item list \<Rightarrow> real \<Rightarrow> item list \<times> real" where
  "difal_out_loop [] total_difal_out = ([], total_difal_out)"
| "difal_out_loop (it # rest) total_difal_out =
     (let difal_out = item_difal_out it;
          (rest', total_difal_out') = difal_out_loop rest (total_difal_out + difal_out)
      in (it\<lparr>it_difal_out := Some difal_out\<rparr> # rest', total_difal_out'))"

text \<open>Third loop: \<^verbatim>\<open>difal_in\<close>, with the rate of the company's own state.\<close>

definition item_difal_in :: "real \<Rightarrow> item \<Rightarrow> real" where
  "item_difal_in company_internal_rate it =
     (let origin = it_purchase_state it;
          purchase_value = it_purchase_total it
      in if origin \<noteq> [] \<and> origin \<noteq> COMPANY_STATE
         then max 0 (company_internal_rate - DEFAULT_INTERSTATE_RATE) * purchase_value
         else 0)"

fun difal_in_loop :: "real \<Rightarrow> item list \<Rightarrow> real \<Rightarrow> item list \<times> real" where
  "difal_in_loop r [] total_difal_in = ([], total_difal_in)"
| "difal_in_loop r (it # rest) total_difal_in =
     (let difal_in = item_difal_in r it;
          (rest', total_difal_in') = difal_in_loop r rest (total_difal_in + difal_in)
      in (it\<lparr>it_difal_in := Some difal_in\<rparr> # rest', total_difal_in'))"

subsection \<open>Other costs and the price for a target margin\<close>

text \<open>
  \<^verbatim>\<open>sum(o['cost'] for o in ...)\<close>: adding \<^verbatim>\<open>None\<close> to a number is a
  \<^verbatim>\<open>TypeError\<close>.
\<close>

fun sum_costs :: "other_cost list \<Rightarrow> real \<Rightarrow> error + real" where
  "sum_costs [] acc = Inr acc"
| "sum_costs (oc # rest) acc =
     (case oc_cost oc of None \<Rightarrow> Inl TypeError | Some c \<Rightarrow> sum_costs rest (acc + c))"

text \<open>\<^verbatim>\<open>d[k] = v\<close>: an existing key keeps its place, a new key goes last.\<close>

fun dict_set :: "(string \<times> real) list \<Rightarrow> string \<Rightarrow> real \<Rightarrow> (string \<times> real) list" where
  "dict_set [] k v = [(k, v)]"
| "dict_set ((k', v') # d) k v = (if k' = k then (k, v) # d else (k', v') # dict_set d k v)"

text \<open>
  The dictionary comprehension over the margins, in the order of the list:
  the key is \<^verbatim>\<open>f"{int(m*100)}%"\<close>, the value
  \<^verbatim>\<open>round(total_cost / (1 - m), 2)\<close>. The second argument is the list
  iterated over, the third the dictionary built so far.
\<close>

definition margin_label :: "real \<Rightarrow> string" where
  "margin_label m = str_int (py_int (m * 100)) @ ''%''"

fun min_sale_comprehension ::
  "real \<Rightarrow> real list \<Rightarrow> (string \<times> real) list \<Rightarrow> error + (string \<times> real) list" where
  "min_sale_comprehension total_cost [] d = Inr d"
| "min_sale_comprehension total_cost (m # ms) d =
     (case py_div total_cost (1 - m) of
        Inl e \<Rightarrow> Inl e
      | Inr q \<Rightarrow>
          min_sale_comprehension total_cost ms (dict_set d (margin_label m) (py_round q 2)))"

definition profit_margins :: "real list" where
  "profit_margins = [10 / 100, 15 / 100, 20 / 100]"

subsection \<open>\<^verbatim>\<open>calculate_report\<close>\<close>

definition report_note :: string where
  "report_note =
     ''Modelo simplificado para Simples Nacional; ajuste conforme regras espec''
     @ [CHR 0xC3, CHR 0xAD]
     @ ''ficas de seu regime/NCM.''"

text \<open>
  The first argument stands for \<^verbatim>\<open>datetime.now().isoformat()\<close>, the only
  value the function reads from outside the project.
\<close>

definition calculate_report :: "string \<Rightarrow> project \<Rightarrow> error + report" where
  "calculate_report now proj =
     (let total_sale_from_products =
            py_sum (map (\<lambda>p. or_float (pr_sale_price p) 0 * of_int (or_int (pr_qty p) 1))
                      (pj_products proj));
          gross = (if 0 < total_sale_from_products then total_sale_from_products
                   else or_float (pj_gross_sale proj) 0);
          simples_rate = or_float (pj_simples_rate proj) DEFAULT_SIMPLES_RATE;
          interstate_rate = DEFAULT_INTERSTATE_RATE;
          company_internal_rate = state_rate (Some COMPANY_STATE);
          (product_subtotals, total_purchase, total_sale_assigned) =
            subtotals_loop proj (pj_products proj) ([], 0, 0);
          das_total = gross * simples_rate;
          (product_subtotals, total_difal_out) = difal_out_loop product_subtotals 0;
          (product_subtotals, total_difal_in) =
            difal_in_loop company_internal_rate product_subtotals 0
      in case sum_costs (pj_other_costs proj) 0 of
           Inl e \<Rightarrow> Inl e
         | Inr total_other \<Rightarrow>
             (let total_cost =
                    total_purchase + total_difal_in + total_difal_out + total_other + das_total;
                  net_value = gross - total_cost
              in case (if gross \<noteq> 0
                       then (case py_div net_value gross of
                               Inl e \<Rightarrow> Inl e | Inr q \<Rightarrow> Inr (q * 100))
                       else Inr 0) of
                   Inl e \<Rightarrow> Inl e
                 | Inr net_percent \<Rightarrow>
                     (case min_sale_comprehension total_cost profit_margins [] of
                        Inl e \<Rightarrow> Inl e
                      | Inr min_sale_for_profit \<Rightarrow>
                          Inr \<lparr> rp_project_number = pj_project_number proj,
                                rp_client_name = pj_client_name proj,
                                rp_created_at = now,
                                rp_company_state = COMPANY_STATE,
                                rp_gross_sale = gross,
                                rp_simples_rate = simples_rate,
                                rp_das_total = das_total,
                                rp_products = product_subtotals,
                                rp_total_purchase = total_purchase,
                                rp_total_difal_in = total_difal_in,
                                rp_total_difal_out = total_difal_out,
                                rp_other_costs = pj_other_costs proj,
                                rp_total_other = total_other,
                                rp_total_cost = total_cost,
                                rp_net_value = net_value,
                                rp_net_percent = net_percent,
                                rp_min_sale_for_profit = min_sale_for_profit,
                                rp_assumptions =
                                  \<lparr> as_interstate_rate = interstate_rate,
                                    as_state_rates = DEFAULT_STATE_RATES,
                                    as_note_text = report_note \<rparr> \<rparr>)))"

subsection \<open>Sample projects\<close>

text \<open>
  One product bought in Sao Paulo and sold to Rio de Janeiro, two units at a
  cost of 100 and a price of 150, under a 5 percent Simples rate; the manual gross
  sale of 1000 is larger than the line-item sum of 300.
\<close>

definition sample_product :: product where
  "sample_product =
     \<lparr> pr_id = Some 1, pr_description = Some ''item'',
       pr_purchase_cost = Some 100, pr_sale_price = Some 150, pr_qty = Some 2,
       pr_purchase_state = Some ''SP'', pr_sale_state = Some ''RJ'' \<rparr>"

definition sample_project :: project where
  "sample_project =
     \<lparr> pj_project_number = Some ''P-1'', pj_client_name = Some ''client'',
       pj_gross_sale = Some 1000, pj_purchase_state = None, pj_sale_state = None,
       pj_simples_rate = Some (5 / 100),
       pj_products = [sample_product], pj_other_costs = [] \<rparr>"

definition sample_now :: string where
  "sample_now = ''2024-01-01T00:00:00''"

definition sample_assumptions :: assumptions_block where
  "sample_assumptions =
     \<lparr> as_interstate_rate = 12 / 100,
       as_state_rates = [(''MG'', 18 / 100), (''SP'', 18 / 100), (''RJ'', 20 / 100)],
       as_note_text = report_note \<rparr>"

text \<open>The report expected for it.\<close>

definition sample_report :: report where
  "sample_report =
     \<lparr> rp_project_number = Some ''P-1'', rp_client_name = Some ''client'',
       rp_created_at = sample_now, rp_company_state = ''MG'',
       rp_gross_sale = 300, rp_simples_rate = 5 / 100, rp_das_total = 15,
       rp_products =
         [\<lparr> it_id = Some 1, it_description = Some ''item'', it_qty = 2,
            it_purchase_total = 200, it_sale_total = 300,
            it_purchase_state = ''SP'', it_sale_state = ''RJ'',
            it_difal_out = Some 24, it_difal_in = Some 12 \<rparr>],
       rp_total_purchase = 200, rp_total_difal_in = 12, rp_total_difal_out = 24,
       rp_other_costs = [], rp_total_other = 0, rp_total_cost = 251,
       rp_net_value = 49, rp_net_percent = 49 / 3,
       rp_min_sale_for_profit =
         [(''10%'', 27889 / 100), (''15%'', 29529 / 100), (''20%'', 31375 / 100)],
       rp_assumptions = sample_assumptions \<rparr>"

text \<open>The same sale shipped to Bahia, a state the rate table does not list.\<close>

definition bahia_project :: project where
  "bahia_project =
     sample_project\<lparr>pj_products := [sample_product\<lparr>pr_sale_state := Some ''ba''\<rparr>]\<rparr>"

definition bahia_item :: item where
  "bahia_item =
     \<lparr> it_id = Some 1, it_description = Some ''item'', it_qty = 2,
       it_purchase_total = 200, it_sale_total = 300,
       it_purchase_state = ''SP'', it_sale_state = ''BA'',
       it_difal_out = Some 0, it_difal_in = Some 12 \<rparr>"

definition bahia_report :: report where
  "bahia_report =
     sample_report
       \<lparr> rp_products := [bahia_item], rp_total_difal_out := 0, rp_total_cost := 227,
         rp_net_value := 73, rp_net_percent := 73 / 3,
         rp_min_sale_for_profit :=
           [(''10%'', 25222 / 100), (''15%'', 26706 / 100), (''20%'', 28375 / 100)] \<rparr>"




text \<open>A project with no product, no other cost and no manual gross sale.\<close>

definition empty_project :: project where
  "empty_project =
     \<lparr> pj_project_number = Some ''P-0'', pj_client_name = Some ''client'',
       pj_gross_sale = None, pj_purchase_state = None, pj_sale_state = None,
       pj_simples_rate = None, pj_products = [], pj_other_costs = [] \<rparr>"

definition empty_report :: report where
  "empty_report =
     \<lparr> rp_project_number = Some ''P-0'', rp_client_name = Some ''client'',
       rp_created_at = sample_now, rp_company_state = ''MG'',
       rp_gross_sale = 0, rp_simples_rate = 5 / 100, rp_das_total = 0,
       rp_products = [],
       rp_total_purchase = 0, rp_total_difal_in = 0, rp_total_difal_out = 0,
       rp_other_costs = [], rp_total_other = 0, rp_total_cost = 0,
       rp_net_value = 0, rp_net_percent = 0,
       rp_min_sale_for_profit = [(''10%'', 0), (''15%'', 0), (''20%'', 0)],
       rp_assumptions = sample_assumptions \<rparr>"

section \<open>Closed forms of the loops\<close>

lemma foldl_add_sum_list: "foldl (+) a xs = a + sum_list (xs :: real list)"
  by (induction xs arbitrary: a) simp_all

lemma py_sum_sum_list: "py_sum xs = sum_list xs"
  by (simp add: py_sum_def foldl_add_sum_list)

lemma subtotals_loop_closed:
  "subtotals_loop proj ps (acc, tp, ts) =
     (acc @ map (subtotal proj) ps,
      tp + (\<Sum>p\<leftarrow>ps. it_purchase_total (subtotal proj p)),
      ts + (\<Sum>p\<leftarrow>ps. it_sale_total (subtotal proj p)))"
  by (induction ps arbitrary: acc tp ts) (simp_all add: Let_def)

lemma difal_out_loop_closed:
  "difal_out_loop its t =
     (map (\<lambda>it. it\<lparr>it_difal_out := Some (item_difal_out it)\<rparr>) its,
      t + (\<Sum>it\<leftarrow>its. item_difal_out it))"
  by (induction its arbitrary: t) (simp_all add: Let_def)

lemma difal_in_loop_closed:
  "difal_in_loop r its t =
     (map (\<lambda>it. it\<lparr>it_difal_in := Some (item_difal_in r it)\<rparr>) its,
      t + (\<Sum>it\<leftarrow>its. item_difal_in r it))"
  by (induction its arbitrary: t) (simp_all add: Let_def)

lemma sum_costs_closed:
  "sum_costs ocs acc =
     (if list_all (\<lambda>oc. oc_cost oc \<noteq> None) ocs
      then Inr (acc + (\<Sum>oc\<leftarrow>ocs. the (oc_cost oc)))
      else Inl TypeError)"
  by (induction ocs arbitrary: acc) (auto split: option.splits)

lemma item_difal_in_after_out [simp]:
  "item_difal_in r (it\<lparr>it_difal_out := x\<rparr>) = item_difal_in r it"
  by (simp add: item_difal_in_def)

lemma margin_labels:
  "margin_label (1 / 10) = ''10%''"
  "margin_label (3 / 20) = ''15%''"
  "margin_label (1 / 5) = ''20%''"
  by code_simp+

lemma min_sale_fixed:
  "min_sale_comprehension tc profit_margins [] =
     Inr [(''10%'', py_round (tc / (1 - 10 / 100)) 2),
          (''15%'', py_round (tc / (1 - 15 / 100)) 2),
          (''20%'', py_round (tc / (1 - 20 / 100)) 2)]"
  by (simp add: profit_margins_def py_div_def margin_labels)

lemma upper_char_idem: "upper_char (upper_char c) = upper_char c"
proof (cases "97 \<le> (of_char c :: nat) \<and> (of_char c :: nat) \<le> 122")
  case True
  then have "(of_char c - 32 :: nat) mod 256 = of_char c - 32"
    by (intro mod_less) arith
  with True show ?thesis
    by (auto simp add: upper_char_def Let_def of_char_of)
next
  case False
  then show ?thesis
    by (auto simp add: upper_char_def Let_def)
qed

lemma upper_idem: "upper (upper s) = upper s"
  by (simp add: upper_def upper_char_idem)

lemma calculate_report_closed:
  "calculate_report now proj =
     (if list_all (\<lambda>oc. oc_cost oc \<noteq> None) (pj_other_costs proj)
      then
        (let s = (\<Sum>p\<leftarrow>pj_products proj.
                    or_float (pr_sale_price p) 0 * of_int (or_int (pr_qty p) 1));
             gross = (if 0 < s then s else or_float (pj_gross_sale proj) 0);
             rate = or_float (pj_simples_rate proj) DEFAULT_SIMPLES_RATE;
             home = state_rate (Some COMPANY_STATE);
             tp = (\<Sum>p\<leftarrow>pj_products proj. it_purchase_total (subtotal proj p));
             t_out = (\<Sum>p\<leftarrow>pj_products proj. item_difal_out (subtotal proj p));
             t_in = (\<Sum>p\<leftarrow>pj_products proj. item_difal_in home (subtotal proj p));
             t_other = (\<Sum>oc\<leftarrow>pj_other_costs proj. the (oc_cost oc));
             tc = tp + t_in + t_out + t_other + gross * rate
         in Inr \<lparr> rp_project_number = pj_project_number proj,
                  rp_client_name = pj_client_name proj,
                  rp_created_at = now,
                  rp_company_state = COMPANY_STATE,
                  rp_gross_sale = gross,
                  rp_simples_rate = rate,
                  rp_das_total = gross * rate,
                  rp_products =
                    map (\<lambda>p. (subtotal proj p)
                            \<lparr> it_difal_out := Some (item_difal_out (subtotal proj p)),
                              it_difal_in := Some (item_difal_in home (subtotal proj p)) \<rparr>)
                      (pj_products proj),
                  rp_total_purchase = tp,
                  rp_total_difal_in = t_in,
                  rp_total_difal_out = t_out,
                  rp_other_costs = pj_other_costs proj,
                  rp_total_other = t_other,
                  rp_total_cost = tc,
                  rp_net_value = gross - tc,
                  rp_net_percent = (if gross \<noteq> 0 then (gross - tc) / gross * 100 else 0),
                  rp_min_sale_for_profit =
                    [(''10%'', py_round (tc / (1 - 10 / 100)) 2),
                     (''15%'', py_round (tc / (1 - 15 / 100)) 2),
                     (''20%'', py_round (tc / (1 - 20 / 100)) 2)],
                  rp_assumptions =
                    \<lparr> as_interstate_rate = DEFAULT_INTERSTATE_RATE,
                      as_state_rates = DEFAULT_STATE_RATES,
                      as_note_text = report_note \<rparr> \<rparr>)
      else Inl TypeError)"
  unfolding calculate_report_def
  by (simp add: Let_def py_sum_sum_list subtotals_loop_closed difal_out_loop_closed
      difal_in_loop_closed sum_costs_closed py_div_def min_sale_fixed comp_def
      del: min_sale_comprehension.simps)

section \<open>Evaluating the samples\<close>

lemma upper_samples:
  "upper ''SP'' = ''SP''" "upper ''RJ'' = ''RJ''" "upper ''MG'' = ''MG''"
  "upper ''ba'' = ''BA''" "upper ''BA'' = ''BA''" "upper ''rj'' = ''RJ''" "upper ''mg'' = ''MG''"
  by code_simp+

lemmas engine_defs =
  Let_def subtotal_def or_float_def or_int_def or_str_def item_difal_out_def
  item_difal_in_def state_rate_def dict_get_def DEFAULT_STATE_RATES_def
  DEFAULT_INTERSTATE_RATE_def DEFAULT_SIMPLES_RATE_def COMPANY_STATE_def py_round_def

lemma sample_report_computed: "calculate_report sample_now sample_project = Inr sample_report"
  by (simp add: calculate_report_closed sample_project_def sample_product_def
      sample_report_def sample_assumptions_def engine_defs upper_samples)

lemma bahia_report_computed: "calculate_report sample_now bahia_project = Inr bahia_report"
  by (simp add: calculate_report_closed bahia_project_def sample_project_def sample_product_def
      bahia_report_def bahia_item_def sample_report_def sample_assumptions_def engine_defs
      upper_samples)


lemma empty_report_computed: "calculate_report sample_now empty_project = Inr empty_report"
  by (simp add: calculate_report_closed empty_project_def empty_report_def
      sample_assumptions_def engine_defs)


section \<open>Claims\<close>


text \<open>
  Claim C1. In every report the engine returns, the total cost is the sum of the
  purchase total, the two DIFAL totals, the other costs and the DAS charge. The
  purchase total is the sum over the products of unit cost times quantity (both
  with their defaults), each DIFAL total is the sum of the figures stored in the
  items, the other-cost total is the sum of the cost amounts, and the DAS charge
  is the gross sale times the Simples rate of the report.
\<close>

theorem total_cost_is_sum_of_parts:
  assumes "calculate_report now proj = Inr r"
  shows "rp_total_cost r =
           rp_total_purchase r + rp_total_difal_in r + rp_total_difal_out r
           + rp_total_other r + rp_das_total r
       \<and> rp_total_purchase r =
           (\<Sum>p\<leftarrow>pj_products proj.
              or_float (pr_purchase_cost p) 0 * of_int (or_int (pr_qty p) 1))
       \<and> list_all (\<lambda>it. it_difal_in it \<noteq> None \<and> it_difal_out it \<noteq> None) (rp_products r)
       \<and> rp_total_difal_in r = (\<Sum>it\<leftarrow>rp_products r. the (it_difal_in it))
       \<and> rp_total_difal_out r = (\<Sum>it\<leftarrow>rp_products r. the (it_difal_out it))
       \<and> list_all (\<lambda>oc. oc_cost oc \<noteq> None) (pj_other_costs proj)
       \<and> rp_total_other r = (\<Sum>oc\<leftarrow>pj_other_costs proj. the (oc_cost oc))
       \<and> rp_das_total r = rp_gross_sale r * rp_simples_rate r"
  using assms
  by (auto simp add: calculate_report_closed Let_def comp_def subtotal_def list_all_iff
      split: if_splits)



theorem total_cost_is_sum_of_parts_witness:
  "calculate_report sample_now sample_project = Inr sample_report
   \<and> rp_total_cost sample_report = 200 + 12 + 24 + 0 + 15
   \<and> rp_total_cost sample_report =
       rp_total_purchase sample_report + rp_total_difal_in sample_report
       + rp_total_difal_out sample_report + rp_total_other sample_report
       + rp_das_total sample_report"
  using total_cost_is_sum_of_parts [OF sample_report_computed] sample_report_computed
  by (simp add: sample_report_def)










text \<open>
  Claim C5. The rate resolver gives 0 for a missing or an empty state code. A
  non-empty code is upper-cased and looked up in the rate table: a listed code
  gives the rate of the table, any other code the default interstate rate. The
  function has no failing operation, so every argument has a rate.
\<close>

theorem state_rate_cases:
  "state_rate None = 0
   \<and> state_rate (Some []) = 0
   \<and> (s \<noteq> [] \<longrightarrow>
        (case map_of DEFAULT_STATE_RATES (upper s) of
           Some rate \<Rightarrow> state_rate (Some s) = rate
         | None \<Rightarrow> state_rate (Some s) = DEFAULT_INTERSTATE_RATE))
   \<and> (\<exists>rate. state_rate x = rate \<and> 0 \<le> rate)"
proof -
  have "0 \<le> state_rate x"
    by (simp add: state_rate_def dict_get_def DEFAULT_STATE_RATES_def
        DEFAULT_INTERSTATE_RATE_def split: option.splits)
  then show ?thesis
    by (simp add: state_rate_def dict_get_def split: option.splits)
qed

theorem state_rate_cases_witness:
  "''rj'' \<noteq> [] \<and> map_of DEFAULT_STATE_RATES (upper ''rj'') = Some (20 / 100)
   \<and> state_rate (Some ''rj'') = 20 / 100
   \<and> ''ba'' \<noteq> [] \<and> map_of DEFAULT_STATE_RATES (upper ''ba'') = None
   \<and> state_rate (Some ''ba'') = 12 / 100"
  using state_rate_cases [of "''rj''"] state_rate_cases [of "''ba''"]
  by (simp add: DEFAULT_STATE_RATES_def DEFAULT_INTERSTATE_RATE_def upper_samples)


lemma subtotal_products_irrelevant [simp]:
  "subtotal (proj\<lparr>pj_products := ps\<rparr>) p = subtotal proj p"
  by (simp add: subtotal_def)




text \<open>
  Claim C7. The engine never raises a division by zero. In every report the net
  value is the gross sale minus the total cost; the net percentage is the net
  value divided by the gross sale, times 100, when the gross sale is positive,
  and 0 when the gross sale is 0.
\<close>

theorem net_value_and_percent:
  "calculate_report now proj \<noteq> Inl ZeroDivisionError
   \<and> (\<forall>r. calculate_report now proj = Inr r \<longrightarrow>
         rp_net_value r = rp_gross_sale r - rp_total_cost r
       \<and> (0 < rp_gross_sale r \<longrightarrow>
            rp_net_percent r = rp_net_value r / rp_gross_sale r * 100)
       \<and> (rp_gross_sale r = 0 \<longrightarrow> rp_net_percent r = 0))"
  by (auto simp add: calculate_report_closed Let_def split: if_splits)

theorem net_value_and_percent_witness:
  "calculate_report sample_now sample_project = Inr sample_report
   \<and> 0 < rp_gross_sale sample_report
   \<and> rp_net_value sample_report = 300 - 251
   \<and> rp_net_percent sample_report = 49 / 300 * 100
   \<and> calculate_report sample_now empty_project = Inr empty_report
   \<and> rp_gross_sale empty_report = 0
   \<and> rp_net_percent empty_report = 0"
  using net_value_and_percent [of sample_now sample_project] sample_report_computed
    net_value_and_percent [of sample_now empty_project] empty_report_computed
  by (simp add: sample_report_def empty_report_def)









text \<open>
  Claim C10. For an item whose destination is not empty, is not the company's
  state and is not a key of the rate table, the rate resolver returns exactly the
  default interstate rate, the clamped rate difference is 0, and the outgoing
  differential of the item is exactly 0.
\<close>

theorem unknown_destination_no_difal_out:
  assumes "calculate_report now proj = Inr r"
    and "it \<in> set (rp_products r)"
    and "it_sale_state it \<noteq> []"
    and "it_sale_state it \<noteq> COMPANY_STATE"
    and "it_sale_state it \<notin> set (map fst DEFAULT_STATE_RATES)"
  shows "state_rate (Some (it_sale_state it)) = DEFAULT_INTERSTATE_RATE
       \<and> it_difal_out it = Some 0"
proof -
  from assms(1) have items:
    "rp_products r =
       map (\<lambda>p. (subtotal proj p)
               \<lparr> it_difal_out := Some (item_difal_out (subtotal proj p)),
                 it_difal_in :=
                   Some (item_difal_in (state_rate (Some COMPANY_STATE)) (subtotal proj p)) \<rparr>)
         (pj_products proj)"
    by (auto simp add: calculate_report_closed Let_def split: if_splits)
  with assms(2) obtain p where
    it: "it = (subtotal proj p)
               \<lparr> it_difal_out := Some (item_difal_out (subtotal proj p)),
                 it_difal_in :=
                   Some (item_difal_in (state_rate (Some COMPANY_STATE)) (subtotal proj p)) \<rparr>"
    by auto
  have dst: "it_sale_state it = it_sale_state (subtotal proj p)"
    by (simp add: it)
  have "upper (it_sale_state (subtotal proj p)) = it_sale_state (subtotal proj p)"
    by (simp add: subtotal_def Let_def upper_idem)
  with dst have up: "upper (it_sale_state it) = it_sale_state it"
    by simp
  from assms(5) have "map_of DEFAULT_STATE_RATES (it_sale_state it) = None"
    by (simp add: map_of_eq_None_iff)
  with assms(3) up have rate: "state_rate (Some (it_sale_state it)) = DEFAULT_INTERSTATE_RATE"
    by (simp add: state_rate_def dict_get_def)
  have "it_difal_out it = Some (item_difal_out (subtotal proj p))"
    by (simp add: it)
  also have "item_difal_out (subtotal proj p) = 0"
    using rate dst by (simp add: item_difal_out_def Let_def)
  finally show ?thesis
    using rate by simp
qed

theorem unknown_destination_no_difal_out_witness:
  "calculate_report sample_now bahia_project = Inr bahia_report
   \<and> bahia_item \<in> set (rp_products bahia_report)
   \<and> it_sale_state bahia_item = ''BA''
   \<and> it_sale_state bahia_item \<noteq> []
   \<and> it_sale_state bahia_item \<noteq> COMPANY_STATE
   \<and> it_sale_state bahia_item \<notin> set (map fst DEFAULT_STATE_RATES)
   \<and> it_difal_out bahia_item = Some 0"
proof -
  have a: "bahia_item \<in> set (rp_products bahia_report)"
    by (simp add: bahia_report_def)
  have b: "it_sale_state bahia_item \<noteq> []"
    and c: "it_sale_state bahia_item \<noteq> COMPANY_STATE"
    and d: "it_sale_state bahia_item \<notin> set (map fst DEFAULT_STATE_RATES)"
    by (simp_all add: bahia_item_def COMPANY_STATE_def DEFAULT_STATE_RATES_def)
  from unknown_destination_no_difal_out [OF bahia_report_computed a b c d]
  show ?thesis
    using bahia_report_computed a b c d by (simp add: bahia_item_def)
qed

end
